theory Spec2Isabelle
  imports Complex_Main "HOL-Library.Sublist"
begin

section \<open>Python strings\<close>

text \<open>
  A Python \<open>str\<close> is modelled as a \<open>string\<close> whose characters are the code points
  below 256.  \<open>is_space\<close> is the whitespace class shared by \<open>str.strip\<close>,
  \<open>str.split\<close> and the regular expression class \<open>\s\<close> on \<open>str\<close> patterns.
\<close>

definition is_space :: "char \<Rightarrow> bool" where
  "is_space c =
     (let n = (of_char c :: nat)
      in (9 \<le> n \<and> n \<le> 13) \<or> (28 \<le> n \<and> n \<le> 32) \<or> n = 133 \<or> n = 160)"

definition strip :: "string \<Rightarrow> string" where
  "strip s = rev (dropWhile is_space (rev (dropWhile is_space s)))"

fun join_space :: "string list \<Rightarrow> string" where
  "join_space [] = []"
| "join_space [x] = x"
| "join_space (x # y # ys) = x @ '' '' @ join_space (y # ys)"

text \<open>Python slices \<open>xs[i:]\<close> and \<open>xs[:j]\<close>; a negative bound counts from the end.\<close>

definition py_slice_from :: "int \<Rightarrow> 'a list \<Rightarrow> 'a list" where
  "py_slice_from i xs =
     (if i < 0 then drop (nat (int (length xs) + i)) xs else drop (nat i) xs)"

definition py_slice_to :: "int \<Rightarrow> 'a list \<Rightarrow> 'a list" where
  "py_slice_to j xs =
     (if j < 0 then take (nat (int (length xs) + j)) xs else take (nat j) xs)"

datatype py_exn = Exception string | ValueError string | IndexError string

section \<open>summarizer\_extractive.py\<close>

subsection \<open>sentence\_tokenize\<close>

definition is_sentence_end :: "char \<Rightarrow> bool" where
  "is_sentence_end c = (c = CHR ''.'' \<or> c = CHR ''!'' \<or> c = CHR ''?'')"

text \<open>
  \<open>re.split(r'(?<=[.!?])\s+', text)\<close>: the scan keeps the piece read so far in \<open>cur\<close>.
  A match starts at a whitespace character whose predecessor is one of \<open>. ! ?\<close>; it
  takes the whole whitespace run, the piece is emitted and the scan restarts after the
  run.  Right after a match the next character is not whitespace, and at the start of
  the text the look-behind fails, so no match starts where \<open>cur\<close> is empty.
\<close>

function re_split :: "string \<Rightarrow> string \<Rightarrow> string list" where
  "re_split cur [] = [cur]"
| "re_split cur (c # cs) =
     (if is_space c \<and> cur \<noteq> [] \<and> is_sentence_end (last cur)
      then cur # re_split [] (dropWhile is_space cs)
      else re_split (cur @ [c]) cs)"
  by pat_completeness auto
termination
  by (relation "measure (\<lambda>(cur, s). length s)")
     (auto simp: le_imp_less_Suc length_dropWhile_le)

text \<open>The separators the same scan matches, \<open>re.findall\<close> of the same pattern.\<close>

function re_seps :: "string \<Rightarrow> string \<Rightarrow> string list" where
  "re_seps cur [] = []"
| "re_seps cur (c # cs) =
     (if is_space c \<and> cur \<noteq> [] \<and> is_sentence_end (last cur)
      then (c # takeWhile is_space cs) # re_seps [] (dropWhile is_space cs)
      else re_seps (cur @ [c]) cs)"
  by pat_completeness auto
termination
  by (relation "measure (\<lambda>(cur, s). length s)")
     (auto simp: le_imp_less_Suc length_dropWhile_le)

definition sentence_tokenize :: "string \<Rightarrow> string list" where
  "sentence_tokenize text =
     (if text = [] \<or> strip text = [] then []
      else
        let sentences = re_split [] text;
            sentences = map strip (filter (\<lambda>s. strip s \<noteq> []) sentences);
            sentences = filter (\<lambda>s. length s > 3) sentences
        in sentences)"

subsection \<open>get\_model\<close>

text \<open>
  The module global \<open>_model\<close> is the field \<open>cached_model\<close>.  The two counters are ghost
  state: \<open>load_calls\<close> counts the calls of the \<open>SentenceTransformer\<close> constructor and
  \<open>encode_calls\<close> the calls of \<open>model.encode\<close>.
\<close>

record 'h model_state =
  cached_model :: "'h option"
  load_calls :: nat
  encode_calls :: nat

definition SENTENCE_MODEL_NAME :: string where
  "SENTENCE_MODEL_NAME = ''all-MiniLM-L6-v2''"

fun str_exn :: "py_exn \<Rightarrow> string" where
  "str_exn (Exception m) = m"
| "str_exn (ValueError m) = m"
| "str_exn (IndexError m) = m"

text \<open>
  \<open>ctor\<close> is what the call \<open>SentenceTransformer(SENTENCE_MODEL_NAME)\<close> does when it is
  made now: it raises or returns a handle.
\<close>

definition get_model ::
  "(py_exn + 'h) \<Rightarrow> 'h model_state \<Rightarrow> (py_exn + 'h) \<times> 'h model_state" where
  "get_model ctor st =
     (case cached_model st of
        None \<Rightarrow>
          (let st1 = st\<lparr>load_calls := load_calls st + 1\<rparr>
           in case ctor of
                Inl e \<Rightarrow>
                  (Inl (Exception (''Failed to load sentence model '' @ [CHR 0x27]
                          @ SENTENCE_MODEL_NAME @ [CHR 0x27] @ '': '' @ str_exn e)), st1)
              | Inr h \<Rightarrow> (Inr h, st1\<lparr>cached_model := Some h\<rparr>))
      | Some h \<Rightarrow> (Inr h, st))"

subsection \<open>summarize\_extract\<close>

record highlight =
  sentence :: string
  score :: real

text \<open>
  The libraries the summarizer calls: the model constructor, the scoring of lines 88-94
  (\<open>model.encode\<close>, \<open>np.mean\<close>, \<open>cosine_similarity\<close>, \<open>flatten\<close>: it raises or returns
  the scores) and \<open>np.argsort\<close>.
\<close>

record 'h sbert_env =
  sentence_transformer :: "py_exn + 'h"
  score_sentences :: "'h \<Rightarrow> string list \<Rightarrow> py_exn + real list"
  np_argsort :: "real list \<Rightarrow> nat list"

text \<open>\<open>np.argsort(scores)[-k:][::-1]\<close> with \<open>k = min(top_k, len(sentences))\<close>.\<close>

definition top_k_indices :: "(real list \<Rightarrow> nat list) \<Rightarrow> real list \<Rightarrow> int \<Rightarrow> nat \<Rightarrow> nat list" where
  "top_k_indices argsort scores top_k n =
     (let k = min top_k (int n) in rev (py_slice_from (- k) (argsort scores)))"

text \<open>
  The body of the \<open>try\<close>.  An index outside \<open>sentences\<close> or \<open>scores\<close> raises
  \<open>IndexError\<close> in the comprehension of line 101.
\<close>

definition embedding_path ::
  "'h sbert_env \<Rightarrow> 'h model_state \<Rightarrow> string list \<Rightarrow> int
     \<Rightarrow> (py_exn + string \<times> highlight list) \<times> 'h model_state" where
  "embedding_path env st sentences top_k =
     (case get_model (sentence_transformer env) st of
        (Inl e, st1) \<Rightarrow> (Inl e, st1)
      | (Inr model, st1) \<Rightarrow>
          (let st2 = st1\<lparr>encode_calls := encode_calls st1 + 1\<rparr>
           in case score_sentences env model sentences of
                Inl e \<Rightarrow> (Inl e, st2)
              | Inr scores \<Rightarrow>
                  (let top_indices =
                         top_k_indices (np_argsort env) scores top_k (length sentences)
                   in if \<not> list_all (\<lambda>i. i < length sentences \<and> i < length scores) top_indices
                      then (Inl (IndexError ''index out of range''), st2)
                      else
                        let highlights =
                              map (\<lambda>i. \<lparr>sentence = sentences ! i, score = scores ! i\<rparr>)
                                top_indices;
                            ordered_indices = sort top_indices;
                            summary = join_space (map (\<lambda>i. sentences ! i) ordered_indices)
                        in (Inr (summary, highlights), st2))))"

text \<open>The \<open>except\<close> branch (its warning goes to the log only).\<close>

definition fallback :: "string list \<Rightarrow> int \<Rightarrow> string \<times> highlight list" where
  "fallback sentences top_k =
     (let fallback_sentences = py_slice_to top_k sentences;
          highlights = map (\<lambda>sent. \<lparr>sentence = sent, score = 0\<rparr>) fallback_sentences
      in (join_space fallback_sentences, highlights))"

definition summarize_extract ::
  "'h sbert_env \<Rightarrow> 'h model_state \<Rightarrow> string \<Rightarrow> int
     \<Rightarrow> (string \<times> highlight list) \<times> 'h model_state" where
  "summarize_extract env st transcript_text top_k =
     (let sentences = sentence_tokenize transcript_text
      in if length sentences = 0 then (([], []), st)
         else if int (length sentences) \<le> top_k
         then ((strip transcript_text,
                map (\<lambda>sent. \<lparr>sentence = sent, score = 1\<rparr>) sentences), st)
         else
           (case embedding_path env st sentences top_k of
              (Inr res, st') \<Rightarrow> (res, st')
            | (Inl e, st') \<Rightarrow> (fallback sentences top_k, st')))"

subsection \<open>What the libraries guarantee, and sample environments\<close>

text \<open>
  \<open>np.argsort\<close> returns a permutation of the positions that sorts the scores in
  ascending order; the order among equal scores is left open.  The scoring returns one
  score for each sentence.
\<close>

definition argsort_ok :: "(real list \<Rightarrow> nat list) \<Rightarrow> bool" where
  "argsort_ok f =
     (\<forall>xs. distinct (f xs) \<and> set (f xs) = {..<length xs}
           \<and> sorted (map (\<lambda>i. xs ! i) (f xs)))"

definition scores_ok :: "'h sbert_env \<Rightarrow> bool" where
  "scores_ok env =
     (\<forall>h ss sc. score_sentences env h ss = Inr sc \<longrightarrow> length sc = length ss)"

definition stable_argsort :: "real list \<Rightarrow> nat list" where
  "stable_argsort xs = sort_key (\<lambda>i. xs ! i) [0..<length xs]"

definition demo_env :: "nat sbert_env" where
  "demo_env =
     \<lparr>sentence_transformer = Inr 7,
      score_sentences = (\<lambda>h ss. Inr (map (\<lambda>s. real (length s)) ss)),
      np_argsort = stable_argsort\<rparr>"

definition failing_env :: "nat sbert_env" where
  "failing_env =
     \<lparr>sentence_transformer = Inr 7,
      score_sentences = (\<lambda>h ss. Inl (Exception ''encode failed'')),
      np_argsort = stable_argsort\<rparr>"

definition fresh_state :: "nat model_state" where
  "fresh_state = \<lparr>cached_model = None, load_calls = 0, encode_calls = 0\<rparr>"

definition demo_text :: string where
  "demo_text = ''This is great. It works well.  Testing now! Ok? Final check done.''"

definition demo_sentences :: "string list" where
  "demo_sentences =
     [''This is great.'', ''It works well.'', ''Testing now!'', ''Final check done.'']"

section \<open>Properties of the summarizer\<close>

lemma demo_tok: "sentence_tokenize demo_text = demo_sentences"
  by code_simp

lemma demo_strip: "strip demo_text = demo_text"
  by code_simp

lemma argsort_ok_stable: "argsort_ok stable_argsort"
  by (auto simp: argsort_ok_def stable_argsort_def)

lemma subseq_sorted_indices:
  assumes "sorted js" "distinct js" "set js \<subseteq> {..<length xs}"
  shows "subseq (map (\<lambda>i. xs ! i) js) xs"
proof -
  have "js = filter (\<lambda>i. i \<in> set js) [0..<length xs]"
    using assms
    by (intro sorted_distinct_set_unique)
       (auto simp: sorted_filter[where f="\<lambda>x. x", simplified])
  then have "subseq js [0..<length xs]"
    by (metis subseq_filter_left)
  then have "subseq (map (\<lambda>i. xs ! i) js) (map (\<lambda>i. xs ! i) [0..<length xs])"
    by (rule subseq_map)
  then show ?thesis by (simp add: map_nth)
qed

lemma py_slice_from_drop: "\<exists>m. py_slice_from i xs = drop m xs"
  by (auto simp: py_slice_from_def)

lemma top_k_indices_props:
  assumes "argsort_ok f"
  shows "distinct (top_k_indices f sc k n)"
    and "set (top_k_indices f sc k n) \<subseteq> {..<length sc}"
    and "sorted (rev (map (\<lambda>i. sc ! i) (top_k_indices f sc k n)))"
proof -
  obtain m where m: "py_slice_from (- min k (int n)) (f sc) = drop m (f sc)"
    using py_slice_from_drop by blast
  have a: "distinct (f sc)" "set (f sc) = {..<length sc}"
    "sorted (map (\<lambda>i. sc ! i) (f sc))"
    using assms by (auto simp: argsort_ok_def)
  show "distinct (top_k_indices f sc k n)"
    using a(1) by (simp add: top_k_indices_def m)
  show "set (top_k_indices f sc k n) \<subseteq> {..<length sc}"
    using a(2) set_drop_subset[of m "f sc"] by (simp add: top_k_indices_def m)
  show "sorted (rev (map (\<lambda>i. sc ! i) (top_k_indices f sc k n)))"
    using a(3)
    by (simp add: top_k_indices_def m rev_map[symmetric] drop_map[symmetric] sorted_wrt_drop)
qed

lemma length_top_k_indices:
  assumes "argsort_ok f" "1 \<le> k" "k \<le> int n" "n \<le> length sc"
  shows "length (top_k_indices f sc k n) = nat k"
proof -
  have "length (f sc) = length sc"
    using assms(1) by (metis argsort_ok_def card_lessThan distinct_card)
  then show ?thesis
    using assms by (auto simp: top_k_indices_def py_slice_from_def min_def)
qed

lemma embedding_path_success:
  assumes "get_model (sentence_transformer env) st = (Inr h, st1)"
    and "score_sentences env h ss = Inr scores"
    and "length scores = length ss"
    and "argsort_ok (np_argsort env)"
    and "sel = top_k_indices (np_argsort env) scores top_k (length ss)"
  shows "embedding_path env st ss top_k =
           (Inr (join_space (map (\<lambda>i. ss ! i) (sort sel)),
                 map (\<lambda>i. \<lparr>sentence = ss ! i, score = scores ! i\<rparr>) sel),
            st1\<lparr>encode_calls := encode_calls st1 + 1\<rparr>)"
proof -
  have "set sel \<subseteq> {..<length scores}"
    using top_k_indices_props(2)[OF assms(4)] assms(5) by simp
  then have "list_all (\<lambda>i. i < length ss \<and> i < length scores) sel"
    using assms(3) by (auto simp: list_all_iff)
  then show ?thesis
    using assms(1,2,5) by (simp add: embedding_path_def Let_def)
qed

text \<open>A failing model load and a failing scoring call both make the \<open>try\<close> body raise.\<close>

lemma load_failure_raises:
  "cached_model st = None \<Longrightarrow> sentence_transformer env = Inl e
     \<Longrightarrow> isl (fst (embedding_path env st ss top_k))"
  by (simp add: embedding_path_def get_model_def Let_def)

lemma scoring_failure_raises:
  "get_model (sentence_transformer env) st = (Inr h, st1)
     \<Longrightarrow> score_sentences env h ss = Inl e
     \<Longrightarrow> isl (fst (embedding_path env st ss top_k))"
  by (simp add: embedding_path_def Let_def)

text \<open>
  C1.  A transcript whose tokenization yields \<open>n\<close> sentences with \<open>1 \<le> n \<le> top_k\<close>:
  the summary is the trimmed transcript, there is one highlight for each sentence, in
  the original order and with score 1.0, and the state is returned as it was: no model
  is loaded and \<open>encode\<close> is not called.
\<close>

theorem short_transcript_every_sentence:
  assumes "sentence_tokenize transcript_text = ss"
    and "1 \<le> length ss" and "int (length ss) \<le> top_k"
  shows "summarize_extract env st transcript_text top_k =
           ((strip transcript_text, map (\<lambda>s. \<lparr>sentence = s, score = 1\<rparr>) ss), st)
         \<and> length (snd (fst (summarize_extract env st transcript_text top_k))) = length ss
         \<and> map sentence (snd (fst (summarize_extract env st transcript_text top_k))) = ss
         \<and> list_all (\<lambda>h. score h = 1)
              (snd (fst (summarize_extract env st transcript_text top_k)))
         \<and> encode_calls (snd (summarize_extract env st transcript_text top_k))
             = encode_calls st"
  using assms by (auto simp: summarize_extract_def Let_def list_all_iff comp_def)

theorem short_transcript_every_sentence_witness:
  "sentence_tokenize demo_text = demo_sentences
   \<and> 1 \<le> length demo_sentences \<and> int (length demo_sentences) \<le> 5
   \<and> summarize_extract demo_env fresh_state demo_text 5 =
       ((demo_text,
         [\<lparr>sentence = ''This is great.'', score = 1\<rparr>,
          \<lparr>sentence = ''It works well.'', score = 1\<rparr>,
          \<lparr>sentence = ''Testing now!'', score = 1\<rparr>,
          \<lparr>sentence = ''Final check done.'', score = 1\<rparr>]), fresh_state)"
  using short_transcript_every_sentence[OF demo_tok, of 5 demo_env fresh_state]
  by (simp add: demo_tok demo_strip demo_sentences_def)

text \<open>
  C2.  A transcript with more than \<open>top_k\<close> sentences (\<open>top_k\<close> a count, so not
  negative) for which the \<open>try\<close> body raises: \<open>summarize_extract\<close> returns a value, the
  first \<open>top_k\<close> sentences joined with single spaces, and the same sentences as
  highlights, each with score 0.0.
\<close>

theorem fallback_first_k:
  assumes "sentence_tokenize transcript_text = ss"
    and "0 \<le> top_k" and "top_k < int (length ss)"
    and "fst (embedding_path env st ss top_k) = Inl e"
  shows "fst (summarize_extract env st transcript_text top_k) =
           (join_space (take (nat top_k) ss),
            map (\<lambda>s. \<lparr>sentence = s, score = 0\<rparr>) (take (nat top_k) ss))"
proof -
  obtain st' where "embedding_path env st ss top_k = (Inl e, st')"
    using assms(4) by (metis prod.collapse)
  then show ?thesis
    using assms(1-3)
    by (auto simp: summarize_extract_def fallback_def py_slice_to_def Let_def)
qed

theorem fallback_first_k_witness:
  "sentence_tokenize demo_text = demo_sentences
   \<and> (0::int) \<le> 3 \<and> 3 < int (length demo_sentences)
   \<and> fst (embedding_path failing_env fresh_state demo_sentences 3)
       = Inl (Exception ''encode failed'')
   \<and> fst (summarize_extract failing_env fresh_state demo_text 3) =
       (''This is great. It works well. Testing now!'',
        [\<lparr>sentence = ''This is great.'', score = 0\<rparr>,
         \<lparr>sentence = ''It works well.'', score = 0\<rparr>,
         \<lparr>sentence = ''Testing now!'', score = 0\<rparr>])"
proof -
  have r: "fst (embedding_path failing_env fresh_state demo_sentences 3)
             = Inl (Exception ''encode failed'')"
    by (simp add: embedding_path_def get_model_def failing_env_def fresh_state_def)
  have n: "3 < int (length demo_sentences)"
    by (simp add: demo_sentences_def)
  from fallback_first_k[OF demo_tok _ n r] r n show ?thesis
    by (simp add: demo_tok demo_sentences_def numeral_nat)
qed

text \<open>
  C3.  A transcript with more than \<open>top_k\<close> sentences for which the model is available
  and the scoring returns one score for each sentence: with \<open>sel\<close> the positions that
  \<open>np.argsort(scores)[-k:][::-1]\<close> selects, the summary joins the sentences at the
  positions \<open>sort sel\<close>, a subsequence of the sentences in document order; the
  highlights are the sentences at \<open>sel\<close> with their scores, in non-increasing order of
  score; both are drawn from the same set of positions.
\<close>

theorem summary_document_order_highlights_score_order:
  assumes "sentence_tokenize transcript_text = ss"
    and "top_k < int (length ss)"
    and "get_model (sentence_transformer env) st = (Inr h, st1)"
    and "score_sentences env h ss = Inr scores"
    and "length scores = length ss"
    and "argsort_ok (np_argsort env)"
    and "sel = top_k_indices (np_argsort env) scores top_k (length ss)"
    and "res = fst (summarize_extract env st transcript_text top_k)"
  shows "fst res = join_space (map (\<lambda>i. ss ! i) (sort sel))
         \<and> snd res = map (\<lambda>i. \<lparr>sentence = ss ! i, score = scores ! i\<rparr>) sel
         \<and> distinct sel \<and> set sel \<subseteq> {..<length ss} \<and> set (sort sel) = set sel
         \<and> sorted (sort sel)
         \<and> subseq (map (\<lambda>i. ss ! i) (sort sel)) ss
         \<and> sorted (rev (map score (snd res)))"
proof -
  have d: "distinct sel" and s: "set sel \<subseteq> {..<length ss}"
    and o: "sorted (rev (map (\<lambda>i. scores ! i) sel))"
    using top_k_indices_props[OF assms(6), of scores top_k "length ss"] assms(5,7)
    by simp_all
  have res: "res = (join_space (map (\<lambda>i. ss ! i) (sort sel)),
                 map (\<lambda>i. \<lparr>sentence = ss ! i, score = scores ! i\<rparr>) sel)"
  proof (cases "ss = []")
    case True
    then have "sel = []" using s by simp
    then show ?thesis using True assms(1,8) by (simp add: summarize_extract_def)
  next
    case False
    have "embedding_path env st ss top_k =
           (Inr (join_space (map (\<lambda>i. ss ! i) (sort sel)),
                 map (\<lambda>i. \<lparr>sentence = ss ! i, score = scores ! i\<rparr>) sel),
            st1\<lparr>encode_calls := encode_calls st1 + 1\<rparr>)"
      by (rule embedding_path_success[OF assms(3-7)])
    then show ?thesis
      using assms(1,2,8) False by (simp add: summarize_extract_def Let_def)
  qed
  have sub: "subseq (map (\<lambda>i. ss ! i) (sort sel)) ss"
    using d s by (intro subseq_sorted_indices) simp_all
  have "map score (snd res) = map (\<lambda>i. scores ! i) sel"
    by (simp add: res comp_def)
  then have "sorted (rev (map score (snd res)))"
    using o by simp
  moreover have "fst res = join_space (map (\<lambda>i. ss ! i) (sort sel))"
    and "snd res = map (\<lambda>i. \<lparr>sentence = ss ! i, score = scores ! i\<rparr>) sel"
    by (simp_all add: res)
  ultimately show ?thesis using d s sub by simp
qed

lemma demo_sel: "top_k_indices stable_argsort [14, 14, 12, 17] 2 4 = [3, 1]"
  by (simp add: top_k_indices_def stable_argsort_def py_slice_from_def upt_rec numeral_nat)

theorem summary_document_order_witness:
  "sentence_tokenize demo_text = demo_sentences
   \<and> 2 < int (length demo_sentences)
   \<and> score_sentences demo_env 7 demo_sentences = Inr [14, 14, 12, 17]
   \<and> fst (summarize_extract demo_env fresh_state demo_text 2) =
       (''It works well. Final check done.'',
        [\<lparr>sentence = ''Final check done.'', score = 17\<rparr>,
         \<lparr>sentence = ''It works well.'', score = 14\<rparr>])
   \<and> subseq [''It works well.'', ''Final check done.''] demo_sentences"
proof -
  have gm: "get_model (sentence_transformer demo_env) fresh_state =
              (Inr 7, \<lparr>cached_model = Some 7, load_calls = 1, encode_calls = 0\<rparr>)"
    by (simp add: get_model_def demo_env_def fresh_state_def)
  have sc: "score_sentences demo_env 7 demo_sentences = Inr [14, 14, 12, 17]"
    by (simp add: demo_env_def demo_sentences_def)
  have ok: "argsort_ok (np_argsort demo_env)"
    by (simp add: demo_env_def argsort_ok_stable)
  have len: "length demo_sentences = 4"
    by (simp add: demo_sentences_def)
  have sel: "[3, 1] = top_k_indices (np_argsort demo_env) [14, 14, 12, 17] 2
               (length demo_sentences)"
    by (simp only: len demo_sel demo_env_def sbert_env.select_convs)
  have n: "2 < int (length demo_sentences)"
    by (simp add: len)
  have l: "length [14, 14, 12, 17 :: real] = length demo_sentences"
    by (simp add: len)
  show ?thesis
    using summary_document_order_highlights_score_order[OF demo_tok n gm sc l ok sel refl]
      sc n
    by (simp add: prod_eq_iff demo_tok demo_sentences_def)
qed

text \<open>
  C10.  For \<open>top_k \<ge> 1\<close> the highlights list has \<open>min n top_k\<close> entries on every path,
  \<open>n\<close> the number of tokenized sentences, given that \<open>np.argsort\<close> returns a sorting
  permutation and that the scoring returns one score for each sentence.
\<close>

theorem highlights_count:
  assumes "1 \<le> top_k" and "argsort_ok (np_argsort env)" and "scores_ok env"
  shows "length (snd (fst (summarize_extract env st transcript_text top_k)))
           = min (length (sentence_tokenize transcript_text)) (nat top_k)"
proof -
  define ss where "ss = sentence_tokenize transcript_text"
  consider "ss = []" | "ss \<noteq> []" "int (length ss) \<le> top_k" | "top_k < int (length ss)"
    by linarith
  then show ?thesis
  proof cases
    case 1
    then show ?thesis by (simp add: summarize_extract_def ss_def)
  next
    case 2
    then show ?thesis by (auto simp: summarize_extract_def ss_def Let_def)
  next
    case 3
    then have n: "ss \<noteq> []" using assms(1) by auto
    obtain r st' where ep: "embedding_path env st ss top_k = (r, st')"
      by (cases "embedding_path env st ss top_k")
    show ?thesis
    proof (cases r)
      case (Inl e)
      then have "fst (summarize_extract env st transcript_text top_k) = fallback ss top_k"
        using 3 n ep by (simp add: summarize_extract_def Let_def ss_def[symmetric])
      then show ?thesis using 3 assms(1)
        by (simp add: fallback_def py_slice_to_def Let_def ss_def[symmetric])
    next
      case (Inr p)
      then obtain h st1 scores where
        g: "get_model (sentence_transformer env) st = (Inr h, st1)"
        and sc: "score_sentences env h ss = Inr scores"
        and p: "snd p = map (\<lambda>i. \<lparr>sentence = ss ! i, score = scores ! i\<rparr>)
                   (top_k_indices (np_argsort env) scores top_k (length ss))"
        using ep
        by (auto simp: embedding_path_def Let_def split: prod.splits sum.splits if_splits)
      have "length scores = length ss"
        using assms(3) sc by (auto simp: scores_ok_def)
      then have "length (snd p) = nat top_k"
        using length_top_k_indices[OF assms(2,1), of "length ss" scores] 3 p by simp
      moreover have "fst (summarize_extract env st transcript_text top_k) = p"
        using 3 n ep Inr by (simp add: summarize_extract_def Let_def ss_def[symmetric])
      ultimately show ?thesis using 3 by (simp add: ss_def[symmetric])
    qed
  qed
qed

theorem highlights_count_witness:
  "(1::int) \<le> 2 \<and> argsort_ok (np_argsort demo_env) \<and> scores_ok demo_env
   \<and> length (sentence_tokenize demo_text) = 4
   \<and> length (snd (fst (summarize_extract demo_env fresh_state demo_text 2))) = 2
   \<and> length (snd (fst (summarize_extract failing_env fresh_state demo_text 2))) = 2
   \<and> length (snd (fst (summarize_extract demo_env fresh_state demo_text 9))) = 4"
proof -
  have a: "argsort_ok (np_argsort demo_env)" "argsort_ok (np_argsort failing_env)"
    by (simp_all add: demo_env_def failing_env_def argsort_ok_stable)
  have s: "scores_ok demo_env" "scores_ok failing_env"
    by (simp_all add: demo_env_def failing_env_def scores_ok_def)
  show ?thesis
    using highlights_count[OF _ a(1) s(1), of 2 fresh_state demo_text]
      highlights_count[OF _ a(2) s(2), of 2 fresh_state demo_text]
      highlights_count[OF _ a(1) s(1), of 9 fresh_state demo_text] a(1) s(1)
    by (simp add: demo_tok demo_sentences_def)
qed

end
